theory Spec2Isabelle
  imports Main
begin

section \<open>Strings\<close>

text \<open>
  A Python \<open>str\<close> is a sequence of Unicode code points and \<open>len\<close> counts code points.
  A code point is modelled as a natural number (Python's are below \<open>0x110000\<close>; the
  functions below are defined on every natural number), a string as the list of its code
  points. \<open>cps\<close> turns an ASCII literal into such a string.
\<close>

type_synonym pystr = "nat list"

definition cps :: "string \<Rightarrow> pystr" where
  "cps s = map of_char s"

text \<open>\<open>str(n)\<close> for a non-negative integer: its decimal digits, most significant first.\<close>

function str_nat :: "nat \<Rightarrow> pystr" where
  "str_nat n = (if n < 10 then [48 + n] else str_nat (n div 10) @ [48 + n mod 10])"
  by pat_completeness auto
termination
  by (relation "measure id") auto

declare str_nat.simps [simp del]

definition str_int :: "int \<Rightarrow> pystr" where
  "str_int i = (if i < 0 then 45 # str_nat (nat (- i)) else str_nat (nat i))"

text \<open>\<open>sep.join(parts)\<close>.\<close>

fun join :: "pystr \<Rightarrow> pystr list \<Rightarrow> pystr" where
  "join sep [] = []"
| "join sep [x] = x"
| "join sep (x # y # ys) = x @ sep @ join sep (y # ys)"

section \<open>The JSON encoder used by \<open>construct_message\<close>\<close>

text \<open>
  The values \<open>json.dumps\<close> serializes: \<open>None\<close>, booleans, integers, strings, lists and
  dictionaries with string keys (a dictionary keeps its insertion order, hence an
  association list). Floating-point numbers are left out of the model.
\<close>

datatype json =
    JNull
  | JBool bool
  | JInt int
  | JStr pystr
  | JList "json list"
  | JDict "(pystr \<times> json) list"

definition hexdigit :: "nat \<Rightarrow> nat" where
  "hexdigit d = (if d < 10 then 48 + d else 87 + d)"

text \<open>\<open>'{0:04x}'.format(n)\<close> for \<open>n < 0x10000\<close>: four lowercase hexadecimal digits.\<close>

definition hex4 :: "nat \<Rightarrow> pystr" where
  "hex4 n = [hexdigit (n div 4096 mod 16), hexdigit (n div 256 mod 16),
             hexdigit (n div 16 mod 16), hexdigit (n mod 16)]"

text \<open>
  The replacement of one character by \<open>json.encoder.encode_basestring_ascii\<close> (the
  default \<open>ensure_ascii=True\<close>): backslash and double quote get a backslash, the control
  characters \<open>\b \f \n \r \t\<close> their short escapes, printable ASCII (space to tilde) stays,
  every other code point becomes \<open>\uXXXX\<close>, as a surrogate pair from \<open>0x10000\<close> on.
\<close>

definition escape_char :: "nat \<Rightarrow> pystr" where
  "escape_char c =
     (if c = 92 then [92, 92]
      else if c = 34 then [92, 34]
      else if c = 8 then [92, 98]
      else if c = 12 then [92, 102]
      else if c = 10 then [92, 110]
      else if c = 13 then [92, 114]
      else if c = 9 then [92, 116]
      else if 32 \<le> c \<and> c \<le> 126 then [c]
      else if c < 65536 then [92, 117] @ hex4 c
      else (let n = c - 65536;
                s1 = 55296 + n div 1024 mod 1024;
                s2 = 56320 + n mod 1024
            in [92, 117] @ hex4 s1 @ [92, 117] @ hex4 s2))"

definition encode_basestring_ascii :: "pystr \<Rightarrow> pystr" where
  "encode_basestring_ascii s = [34] @ concat (map escape_char s) @ [34]"

text \<open>
  \<open>json.dumps(obj, separators=(item_separator, key_separator))\<close>, all other options at
  their defaults.
\<close>

fun dumps :: "pystr \<Rightarrow> pystr \<Rightarrow> json \<Rightarrow> pystr" where
  "dumps isep ksep JNull = cps ''null''"
| "dumps isep ksep (JBool b) = (if b then cps ''true'' else cps ''false'')"
| "dumps isep ksep (JInt i) = str_int i"
| "dumps isep ksep (JStr s) = encode_basestring_ascii s"
| "dumps isep ksep (JList xs) =
     cps ''['' @ join isep (map (dumps isep ksep) xs) @ cps '']''"
| "dumps isep ksep (JDict kvs) =
     cps ''{'' @
     join isep (map (\<lambda>kv. encode_basestring_ascii (fst kv) @ ksep @ dumps isep ksep (snd kv)) kvs) @
     cps ''}''"

section \<open>Message framing\<close>

definition prepend_header :: "pystr \<Rightarrow> pystr" where
  "prepend_header message =
     (let message_length = length message
      in cps ''~m~'' @ str_nat message_length @ cps ''~m~'' @ message)"

definition construct_message :: "pystr \<Rightarrow> json list \<Rightarrow> pystr" where
  "construct_message func param_list =
     dumps (cps '','') (cps '':'') (JDict [(cps ''m'', JStr func), (cps ''p'', JList param_list)])"

definition create_message :: "pystr \<Rightarrow> json list \<Rightarrow> pystr" where
  "create_message func param_list = prepend_header (construct_message func param_list)"

subsection \<open>Reading an envelope back\<close>

text \<open>
  The wire envelope of the specification is \<open>~m~<decimal-length>~m~<payload>\<close>. The
  functions below read a frame the way its receiver does: the marker, the run of decimal
  digits after it (the length field), the marker again, and the rest as the payload.
  They belong to the specification's side and are compared with what \<open>create_message\<close>
  writes.
\<close>

definition is_digit :: "nat \<Rightarrow> bool" where
  "is_digit c = (48 \<le> c \<and> c \<le> 57)"

definition decimal_value :: "pystr \<Rightarrow> nat" where
  "decimal_value ds = foldl (\<lambda>acc c. 10 * acc + (c - 48)) 0 ds"

definition read_envelope :: "pystr \<Rightarrow> (pystr \<times> pystr) option" where
  "read_envelope frame =
     (if take 3 frame = cps ''~m~'' then
        (let rest = drop 3 frame;
             field = takeWhile is_digit rest;
             after = drop (length field) rest
         in if field \<noteq> [] \<and> take 3 after = cps ''~m~'' then Some (field, drop 3 after) else None)
      else None)"

subsection \<open>The characters of a JSON text outside its string literals\<close>




section \<open>Session identifiers\<close>

text \<open>
  The operating system's entropy behind \<open>secrets\<close> is an explicit argument: an infinite
  sequence of raw draws, of which each call consumes the first. \<open>secrets.randbelow(n)\<close>
  returns an integer in \<open>[0, n)\<close> for \<open>n > 0\<close>; the raw draw is reduced into that range.
  \<open>secrets.choice(seq)\<close> is \<open>seq[randbelow(len(seq))]\<close>; the program calls it with the
  non-empty constant \<open>string.ascii_lowercase\<close> only.
\<close>

type_synonym entropy = "nat \<Rightarrow> nat"

definition randbelow :: "nat \<Rightarrow> entropy \<Rightarrow> nat \<times> entropy" where
  "randbelow n g = (g 0 mod n, \<lambda>i. g (Suc i))"

definition choice :: "pystr \<Rightarrow> entropy \<Rightarrow> nat \<times> entropy" where
  "choice seq g = (let (i, g') = randbelow (length seq) g in (seq ! i, g'))"

definition ascii_lowercase :: pystr where
  "ascii_lowercase = cps ''abcdefghijklmnopqrstuvwxyz''"

text \<open>\<open>''.join(secrets.choice(string.ascii_lowercase) for _ in range(k))\<close>.\<close>

fun random_choices :: "nat \<Rightarrow> entropy \<Rightarrow> pystr \<times> entropy" where
  "random_choices 0 g = ([], g)"
| "random_choices (Suc k) g =
     (let (c, g1) = choice ascii_lowercase g;
          (cs, g2) = random_choices k g1
      in (c # cs, g2))"

definition generate_session :: "pystr \<Rightarrow> entropy \<Rightarrow> pystr \<times> entropy" where
  "generate_session prefix g =
     (let (random_string, g') = random_choices 12 g
      in (prefix @ random_string, g'))"

definition is_lowercase_letter :: "nat \<Rightarrow> bool" where
  "is_lowercase_letter c = (97 \<le> c \<and> c \<le> 122)"

section \<open>Exceptions, collaborators and the handler's state\<close>

text \<open>
  An exception is its class and its text (\<open>str(e)\<close>). The classes are the ones the
  program's two \<open>except\<close> clauses tell apart; each stands for the class and its subclasses:
  the built-in \<open>ConnectionError\<close> and \<open>TimeoutError\<close>, \<open>requests.RequestException\<close>
  (its subclasses include \<open>requests.ConnectionError\<close>, \<open>requests.Timeout\<close> and
  \<open>requests.HTTPError\<close>, none of which is a built-in \<open>ConnectionError\<close> or
  \<open>TimeoutError\<close>), \<open>AttributeError\<close>, and every other exception, such as
  \<open>websocket.WebSocketException\<close> and its subclasses.
\<close>

datatype exn_class =
    ConnectionError
  | TimeoutError
  | RequestException
  | AttributeError
  | OtherException

datatype exn = Exn exn_class pystr

fun exn_class_of :: "exn \<Rightarrow> exn_class" where
  "exn_class_of (Exn c t) = c"

fun exn_text :: "exn \<Rightarrow> pystr" where
  "exn_text (Exn c t) = t"

datatype level = DEBUG | INFO | ERROR

text \<open>
  What \<open>requests.get\<close> returns: the fields of the response that are read
  (\<open>response_text\<close> is the attribute \<open>text\<close>).
\<close>

record response =
  status_code :: int
  reason :: pystr
  url :: pystr
  response_text :: pystr

text \<open>
  \<open>Response.raise_for_status()\<close> of \<open>requests\<close>: an \<open>HTTPError\<close> (a
  \<open>RequestException\<close>) for a status from 400 to 599, nothing otherwise.
\<close>

definition raise_for_status :: "response \<Rightarrow> exn option" where
  "raise_for_status r =
     (if 400 \<le> status_code r \<and> status_code r < 500 then
        Some (Exn RequestException
               (str_int (status_code r) @ cps '' Client Error: '' @ reason r @ cps '' for url: '' @ url r))
      else if 500 \<le> status_code r \<and> status_code r < 600 then
        Some (Exn RequestException
               (str_int (status_code r) @ cps '' Server Error: '' @ reason r @ cps '' for url: '' @ url r))
      else None)"

type_synonym headers = "(pystr \<times> pystr) list"

datatype websocket = WebSocket pystr

text \<open>
  The attributes of a \<open>StreamHandler\<close> object; \<open>None\<close> is an attribute not set yet
  (\<open>__init__\<close> sets them one after the other).
\<close>

record handler =
  request_header :: "headers option"
  ws :: "websocket option"
  quote_session :: "pystr option"
  chart_session :: "pystr option"

text \<open>
  The collaborators, as the program sees them: \<open>requests.get(url, cookies)\<close> returns a
  response or raises; \<open>create_connection(url, headers)\<close> establishes the connection
  (\<open>None\<close>) or raises; \<open>ws.send(frame)\<close> returns (\<open>None\<close>) or raises, depending on the
  frames handed to the connection before and on the frame.
\<close>

record env =
  requests_get :: "pystr \<Rightarrow> (pystr \<times> pystr) list \<Rightarrow> exn + response"
  create_connection :: "pystr \<Rightarrow> headers \<Rightarrow> exn option"
  ws_send :: "pystr list \<Rightarrow> pystr \<Rightarrow> exn option"

text \<open>
  The state the program reads and writes: the handler object, the entropy left, and the
  traces of its effects: every call of \<open>ws.send\<close> on the handler's connection with its
  outcome, every record handed to \<open>logging\<close>, every call of \<open>requests.get\<close> and of
  \<open>create_connection\<close>.
\<close>

record state =
  self :: handler
  entropy_left :: entropy
  sent :: "(pystr \<times> exn option) list"
  logged :: "(level \<times> pystr) list"
  http_calls :: "(pystr \<times> (pystr \<times> pystr) list) list"
  connect_calls :: "(pystr \<times> headers) list"

definition logging :: "level \<Rightarrow> pystr \<Rightarrow> state \<Rightarrow> state" where
  "logging lvl message s = s\<lparr>logged := logged s @ [(lvl, message)]\<rparr>"

section \<open>Token resolution\<close>

text \<open>
  \<open>re.search(r'"auth_token":"(.+?)"', text)\<close> and \<open>match.group(1)\<close>: the leftmost position
  where the literal \<open>"auth_token":"\<close> is followed by one or more characters other than
  newline, as few as possible, and a double quote; the group is those characters.
  (The first of them may itself be a double quote.)
\<close>

definition auth_token_literal :: pystr where
  \<open>auth_token_literal = cps ''"auth_token":"''\<close>

fun lazy_group :: "pystr \<Rightarrow> pystr \<Rightarrow> pystr option" where
  "lazy_group acc [] = None"
| "lazy_group acc (c # cs) =
     (if c = 34 then Some acc
      else if c = 10 then None
      else lazy_group (acc @ [c]) cs)"

definition match_here :: "pystr \<Rightarrow> pystr option" where
  "match_here t =
     (if take (length auth_token_literal) t = auth_token_literal then
        (case drop (length auth_token_literal) t of
           [] \<Rightarrow> None
         | c # cs \<Rightarrow> if c = 10 then None else lazy_group [c] cs)
      else None)"

fun re_search :: "pystr \<Rightarrow> pystr option" where
  "re_search [] = match_here []"
| "re_search (c # cs) =
     (case match_here (c # cs) of
        Some g \<Rightarrow> Some g
      | None \<Rightarrow> re_search cs)"

text \<open>
  \<open>_get_auth_token\<close>: the body of the \<open>try\<close> first, then the \<open>except\<close> clause, which
  catches \<open>requests.RequestException\<close> and nothing else.
\<close>

definition get_auth_token_try :: "env \<Rightarrow> pystr \<Rightarrow> exn + pystr option" where
  "get_auth_token_try e session_id =
     (case requests_get e (cps ''https://www.tradingview.com/disclaimer/'')
             [(cps ''sessionid'', session_id)] of
        Inl ex \<Rightarrow> Inl ex
      | Inr response \<Rightarrow>
          (case raise_for_status response of
             Some ex \<Rightarrow> Inl ex
           | None \<Rightarrow> Inr (re_search (response_text response))))"

definition get_auth_token :: "env \<Rightarrow> pystr \<Rightarrow> state \<Rightarrow> (exn + pystr option) \<times> state" where
  "get_auth_token e session_id s =
     (let s1 = s\<lparr>http_calls := http_calls s @
                  [(cps ''https://www.tradingview.com/disclaimer/'', [(cps ''sessionid'', session_id)])]\<rparr>
      in case get_auth_token_try e session_id of
           Inr r \<Rightarrow> (Inr r, s1)
         | Inl ex \<Rightarrow>
             if exn_class_of ex = RequestException then
               (Inr None,
                logging ERROR (cps ''HTTP request failed while getting auth token: '' @ exn_text ex) s1)
             else (Inl ex, s1))"

section \<open>Sending\<close>

text \<open>
  \<open>send_message\<close>: the frame is built and logged, then handed to \<open>self.ws.send\<close> inside
  the \<open>try\<close>; the \<open>except\<close> clause catches the built-in \<open>ConnectionError\<close> and
  \<open>TimeoutError\<close> and nothing else. Reading \<open>self.ws\<close> before it is set raises
  \<open>AttributeError\<close>.
\<close>

definition send_message :: "env \<Rightarrow> pystr \<Rightarrow> json list \<Rightarrow> state \<Rightarrow> (exn + unit) \<times> state" where
  "send_message e func args s =
     (let message = create_message func args;
          s1 = logging DEBUG (cps ''Sending message: '' @ message) s
      in case ws (self s1) of
           None \<Rightarrow>
             (Inl (Exn AttributeError (cps ''StreamHandler object has no attribute ws'')), s1)
         | Some w \<Rightarrow>
             (case ws_send e (map fst (sent s1)) message of
                None \<Rightarrow> (Inr (), s1\<lparr>sent := sent s1 @ [(message, None)]\<rparr>)
              | Some ex \<Rightarrow>
                  (let s2 = s1\<lparr>sent := sent s1 @ [(message, Some ex)]\<rparr>
                   in if exn_class_of ex = ConnectionError \<or> exn_class_of ex = TimeoutError then
                        (Inr (), logging ERROR (cps ''Failed to send message: '' @ exn_text ex) s2)
                      else (Inl ex, s2))))"

text \<open>Statements in sequence: the second runs unless the first raised.\<close>

definition and_then ::
  "(exn + 'a) \<times> state \<Rightarrow> ('a \<Rightarrow> state \<Rightarrow> (exn + 'b) \<times> state) \<Rightarrow> (exn + 'b) \<times> state" where
  "and_then r k = (case r of (Inl ex, s) \<Rightarrow> (Inl ex, s) | (Inr a, s) \<Rightarrow> k a s)"

section \<open>Initialization\<close>

definition get_quote_fields :: "json list" where
  "get_quote_fields = map (\<lambda>name. JStr (cps name))
     [''ch'', ''chp'', ''current_session'', ''description'', ''local_description'',
      ''language'', ''exchange'', ''fractional'', ''is_tradable'', ''lp'',
      ''lp_time'', ''minmov'', ''minmove2'', ''original_name'', ''pricescale'',
      ''pro_name'', ''short_name'', ''type'', ''update_mode'', ''volume'',
      ''currency_code'', ''rchp'', ''rtc'']"

text \<open>
  The local variables \<open>quote_session\<close> and \<open>chart_session\<close> of \<open>_initialize\<close> and
  \<open>_initialize_sessions\<close> are written \<open>quote_sid\<close> and \<open>chart_sid\<close>, apart from the
  attributes of the same names.
\<close>

definition initialize_sessions ::
  "env \<Rightarrow> pystr \<Rightarrow> pystr \<Rightarrow> pystr \<Rightarrow> state \<Rightarrow> (exn + unit) \<times> state" where
  "initialize_sessions e quote_sid chart_sid auth_token s =
     and_then (send_message e (cps ''set_auth_token'') [JStr auth_token] s) (\<lambda>_ s.
     and_then (send_message e (cps ''set_locale'') [JStr (cps ''en''), JStr (cps ''US'')] s) (\<lambda>_ s.
     and_then (send_message e (cps ''chart_create_session'') [JStr chart_sid, JStr []] s) (\<lambda>_ s.
     and_then (send_message e (cps ''quote_create_session'') [JStr quote_sid] s) (\<lambda>_ s.
     and_then (send_message e (cps ''quote_set_fields'') (JStr quote_sid # get_quote_fields) s) (\<lambda>_ s.
     send_message e (cps ''quote_hibernate_all'') [JStr quote_sid] s)))))"

definition initialize :: "env \<Rightarrow> pystr \<Rightarrow> state \<Rightarrow> (exn + unit) \<times> state" where
  "initialize e auth_token s =
     (let (quote_sid, g1) = generate_session (cps ''qs_'') (entropy_left s);
          (chart_sid, g2) = generate_session (cps ''cs_'') g1;
          s1 = logging INFO
                 (cps ''Quote session generated: '' @ quote_sid @
                  cps '', Chart session generated: '' @ chart_sid)
                 (s\<lparr>entropy_left := g2\<rparr>)
      in and_then (initialize_sessions e quote_sid chart_sid auth_token s1) (\<lambda>_ s2.
           (Inr (), s2\<lparr>self := (self s2)\<lparr>quote_session := Some quote_sid,
                                          chart_session := Some chart_sid\<rparr>\<rparr>)))"

definition the_request_header :: headers where
  "the_request_header =
     [(cps ''Accept-Encoding'', cps ''gzip, deflate, br, zstd''),
      (cps ''Accept-Language'', cps ''en-US,en;q=0.9,fa;q=0.8''),
      (cps ''Cache-Control'', cps ''no-cache''),
      (cps ''Connection'', cps ''Upgrade''),
      (cps ''Host'', cps ''data.tradingview.com''),
      (cps ''Origin'', cps ''https://www.tradingview.com''),
      (cps ''Pragma'', cps ''no-cache''),
      (cps ''Sec-WebSocket-Extensions'', cps ''permessage-deflate; client_max_window_bits''),
      (cps ''Upgrade'', cps ''websocket''),
      (cps ''User-Agent'',
       cps ''Mozilla/5.0 (Windows NT 6.3; Win64; x64) AppleWebKit/537.36 '' @
       cps ''(KHTML, like Gecko) Chrome/107.0.0.0 Safari/537.36'')]"

definition unauthorized_user_token :: pystr where
  "unauthorized_user_token = cps ''unauthorized_user_token''"

text \<open>
  Lines 35 to 41 of \<open>__init__\<close>: the token the handler authenticates with. An absent and
  an empty \<open>session_id\<close> are both false in \<open>if session_id:\<close>, an absent and an empty
  token in \<open>if token:\<close>.
\<close>

definition resolve_auth_token ::
  "env \<Rightarrow> pystr option \<Rightarrow> state \<Rightarrow> (exn + pystr) \<times> state" where
  "resolve_auth_token e session_id s =
     (case session_id of
        None \<Rightarrow> (Inr unauthorized_user_token, s)
      | Some sid \<Rightarrow>
          if sid = [] then (Inr unauthorized_user_token, s)
          else and_then (get_auth_token e sid s) (\<lambda>token s1.
                 case token of
                   Some t \<Rightarrow>
                     if t \<noteq> [] then (Inr t, s1)
                     else (Inr unauthorized_user_token,
                           logging ERROR
                             (cps ''Failed to get auth token. Connecting as unauthorized user.'') s1)
                 | None \<Rightarrow>
                     (Inr unauthorized_user_token,
                      logging ERROR
                        (cps ''Failed to get auth token. Connecting as unauthorized user.'') s1)))"

text \<open>
  \<open>__init__\<close>. The connection is new when \<open>create_connection\<close> returns: nothing has been
  sent on it.
\<close>

definition init :: "env \<Rightarrow> pystr \<Rightarrow> pystr option \<Rightarrow> state \<Rightarrow> (exn + unit) \<times> state" where
  "init e websocket_url session_id s =
     and_then (resolve_auth_token e session_id s) (\<lambda>auth_token s1.
       (let s2 = s1\<lparr>self := (self s1)\<lparr>request_header := Some the_request_header\<rparr>\<rparr>;
            s3 = s2\<lparr>connect_calls := connect_calls s2 @ [(websocket_url, the_request_header)]\<rparr>
        in case create_connection e websocket_url the_request_header of
             Some ex \<Rightarrow> (Inl ex, s3)
           | None \<Rightarrow>
               initialize e auth_token
                 (s3\<lparr>self := (self s3)\<lparr>ws := Some (WebSocket websocket_url)\<rparr>, sent := []\<rparr>)))"

text \<open>
  \<open>StreamHandler(websocket_url, session_id)\<close>: a new object with no attribute, then
  \<open>__init__\<close>; the caller gets the object when \<open>__init__\<close> returns, the exception when
  it raises.
\<close>

definition new_object :: handler where
  "new_object = \<lparr>request_header = None, ws = None, quote_session = None, chart_session = None\<rparr>"

definition StreamHandler ::
  "env \<Rightarrow> pystr \<Rightarrow> pystr option \<Rightarrow> state \<Rightarrow> (exn + handler) \<times> state" where
  "StreamHandler e websocket_url session_id s =
     and_then (init e websocket_url session_id (s\<lparr>self := new_object\<rparr>)) (\<lambda>_ s'.
       (Inr (self s'), s'))"

section \<open>States that look alike to the handler\<close>

text \<open>
  Two states have the same view when they agree on the handler object, the entropy left
  and the calls of \<open>send\<close> so far; they may differ in what was logged, requested and
  connected.
\<close>

definition same_view :: "state \<Rightarrow> state \<Rightarrow> bool" where
  "same_view s t = (self s = self t \<and> entropy_left s = entropy_left t \<and> sent s = sent t)"

text \<open>Two runs have the same outcome: the same result, in states with the same view.\<close>

definition same_outcome :: "('a \<times> state) \<Rightarrow> ('a \<times> state) \<Rightarrow> bool" where
  "same_outcome r r' = (fst r = fst r' \<and> same_view (snd r) (snd r'))"

section \<open>Concrete collaborators and states\<close>

text \<open>A handler after construction, on a connection that has carried nothing yet.\<close>

definition ready_state :: state where
  "ready_state =
     \<lparr>self = \<lparr>request_header = Some the_request_header,
               ws = Some (WebSocket (cps ''wss://data.tradingview.com/socket.io/websocket'')),
               quote_session = Some (cps ''qs_abcdefghijkl''),
               chart_session = Some (cps ''cs_abcdefghijkl'')\<rparr>,
      entropy_left = (\<lambda>i. 7 * i + 3),
      sent = [], logged = [], http_calls = [], connect_calls = []\<rparr>"

text \<open>Before construction: nothing sent, logged or requested.\<close>

definition fresh_state :: state where
  "fresh_state =
     \<lparr>self = new_object, entropy_left = (\<lambda>i. 7 * i + 3),
      sent = [], logged = [], http_calls = [], connect_calls = []\<rparr>"

text \<open>
  Collaborators: \<open>all_well\<close> has a server that answers the token request with a page
  holding a token, accepts the connection and every frame. The others differ from it in
  one behaviour each: \<open>broken_pipe\<close> has \<open>ws.send\<close> raise \<open>BrokenPipeError\<close> (a built-in
  \<open>ConnectionError\<close>); \<open>closed_socket\<close> has it raise
  \<open>WebSocketConnectionClosedException\<close> (not an \<open>OSError\<close>); \<open>dns_failure\<close> has
  \<open>requests.get\<close> raise \<open>requests.ConnectionError\<close>; \<open>forbidden\<close> has it return
  status 403; \<open>multiple_choices\<close> has it return status 300 with a token in the body;
  \<open>refused\<close> has \<open>create_connection\<close> raise \<open>ConnectionRefusedError\<close>;
  \<open>bad_cookie\<close> has \<open>requests.get\<close> raise \<open>UnicodeEncodeError\<close>, as it does for a
  cookie value with a character outside Latin-1.
\<close>

definition token_page :: response where
  \<open>token_page = \<lparr>status_code = 200, reason = cps ''OK'',
                  url = cps ''https://www.tradingview.com/disclaimer/'',
                  response_text = cps ''{"auth_token":"abc"}''\<rparr>\<close>

definition all_well :: env where
  "all_well = \<lparr>requests_get = (\<lambda>u c. Inr token_page),
               create_connection = (\<lambda>u h. None),
               ws_send = (\<lambda>before frame. None)\<rparr>"

definition broken_pipe :: env where
  "broken_pipe = all_well\<lparr>ws_send :=
     (\<lambda>before frame. Some (Exn ConnectionError (cps ''[Errno 32] Broken pipe'')))\<rparr>"

definition closed_socket :: env where
  "closed_socket = all_well\<lparr>ws_send :=
     (\<lambda>before frame. Some (Exn OtherException (cps ''socket is already closed.'')))\<rparr>"

definition dns_failure :: env where
  "dns_failure = all_well\<lparr>requests_get :=
     (\<lambda>u c. Inl (Exn RequestException (cps ''Failed to resolve www.tradingview.com'')))\<rparr>"

definition forbidden :: env where
  "forbidden = all_well\<lparr>requests_get :=
     (\<lambda>u c. Inr (token_page\<lparr>status_code := 403, reason := cps ''Forbidden''\<rparr>))\<rparr>"

definition multiple_choices :: env where
  "multiple_choices = all_well\<lparr>requests_get :=
     (\<lambda>u c. Inr (token_page\<lparr>status_code := 300, reason := cps ''Multiple Choices''\<rparr>))\<rparr>"

definition refused :: env where
  "refused = all_well\<lparr>create_connection :=
     (\<lambda>u h. Some (Exn ConnectionError (cps ''[Errno 111] Connection refused'')))\<rparr>"

definition bad_cookie :: env where
  "bad_cookie = all_well\<lparr>requests_get :=
     (\<lambda>u c. Inl (Exn OtherException (cps ''latin-1 codec cannot encode characters'')))\<rparr>"

section \<open>The envelope's length field\<close>

lemma str_nat_digits: "list_all is_digit (str_nat n)"
proof (induction n rule: str_nat.induct)
  case (1 n)
  show ?case
  proof (cases "n < 10")
    case True
    then show ?thesis by (subst str_nat.simps) (simp add: is_digit_def)
  next
    case False
    have "n mod 10 < 10" by simp
    then have "is_digit (48 + n mod 10)" unfolding is_digit_def by linarith
    with False 1 show ?thesis by (subst str_nat.simps) simp
  qed
qed

lemma str_nat_nonempty: "str_nat n \<noteq> []"
  by (subst str_nat.simps) simp

lemma decimal_value_snoc: "decimal_value (ds @ [d]) = 10 * decimal_value ds + (d - 48)"
  by (simp add: decimal_value_def)

lemma decimal_value_str_nat: "decimal_value (str_nat n) = n"
proof (induction n rule: str_nat.induct)
  case (1 n)
  show ?case
  proof (cases "n < 10")
    case True
    then show ?thesis by (subst str_nat.simps) (simp add: decimal_value_def)
  next
    case False
    with 1 have "decimal_value (str_nat (n div 10)) = n div 10" by simp
    with False show ?thesis by (subst str_nat.simps) (simp add: decimal_value_snoc)
  qed
qed

lemma marker_eq: "cps ''~m~'' = [126, 109, 126]"
  by (simp add: cps_def)

lemma takeWhile_length_field:
  "takeWhile is_digit (str_nat n @ cps ''~m~'' @ p) = str_nat n"
proof -
  have "\<forall>c\<in>set (str_nat n). is_digit c"
    using str_nat_digits [of n] by (simp add: list_all_iff)
  then have "takeWhile is_digit (str_nat n @ cps ''~m~'' @ p)
      = str_nat n @ takeWhile is_digit (cps ''~m~'' @ p)"
    by (simp add: takeWhile_append2)
  also have "takeWhile is_digit (cps ''~m~'' @ p) = []"
    by (simp add: marker_eq is_digit_def)
  finally show ?thesis by simp
qed

lemma read_envelope_prepend_header:
  "read_envelope (prepend_header p) = Some (str_nat (length p), p)"
proof -
  define m where "m = cps ''~m~''"
  define field where "field = str_nat (length p)"
  have m3: "length m = 3" by (simp add: m_def cps_def)
  have tw: "takeWhile is_digit (field @ m @ p) = field"
    unfolding m_def field_def by (rule takeWhile_length_field)
  have ne: "field \<noteq> []" unfolding field_def by (rule str_nat_nonempty)
  have "read_envelope (m @ field @ m @ p) = Some (field, p)"
    unfolding read_envelope_def m_def [symmetric]
    using m3 tw ne by (simp add: Let_def)
  then show ?thesis by (simp add: prepend_header_def m_def field_def)
qed

text \<open>
  Claim C2. For every function name and every parameter list, the framed message is the
  marker \<open>~m~\<close>, the decimal length of the serialized payload, the marker again and the
  payload; reading the frame back gives a length field whose decimal value is the
  character length of the payload, and the payload itself.
\<close>

theorem create_message_length_field:
  "create_message func param_list =
     cps ''~m~'' @ str_nat (length (construct_message func param_list)) @ cps ''~m~'' @
     construct_message func param_list
   \<and> read_envelope (create_message func param_list) =
     Some (str_nat (length (construct_message func param_list)), construct_message func param_list)
   \<and> decimal_value (str_nat (length (construct_message func param_list))) =
     length (construct_message func param_list)"
  by (simp add: create_message_def read_envelope_prepend_header decimal_value_str_nat)
     (simp add: prepend_header_def)

section \<open>The frame of \<open>set_locale\<close>\<close>

text \<open>
  Claim C5, as amended. \<open>create_message("set_locale", ["en", "US"])\<close> is exactly
  \<open>~m~34~m~{"m":"set_locale","p":["en","US"]}\<close>: the JSON payload has 34 characters, the
  length field is 34, and the frame holds no space.
\<close>

theorem create_message_set_locale:
  \<open>create_message (cps ''set_locale'') [JStr (cps ''en''), JStr (cps ''US'')]
     = cps ''~m~34~m~{"m":"set_locale","p":["en","US"]}''
   \<and> length (construct_message (cps ''set_locale'') [JStr (cps ''en''), JStr (cps ''US'')]) = 34
   \<and> 32 \<notin> set (create_message (cps ''set_locale'') [JStr (cps ''en''), JStr (cps ''US'')])\<close>
  by code_simp

text \<open>
  Claim C5 as stated gives the length field as 35; the frame the code builds differs from
  that string, and its payload does not have 35 characters.
\<close>

theorem create_message_set_locale_not_35:
  \<open>create_message (cps ''set_locale'') [JStr (cps ''en''), JStr (cps ''US'')]
     \<noteq> cps ''~m~35~m~{"m":"set_locale","p":["en","US"]}''
   \<and> length (construct_message (cps ''set_locale'') [JStr (cps ''en''), JStr (cps ''US'')]) \<noteq> 35\<close>
  by code_simp

section \<open>Generated session identifiers\<close>

lemma choice_lowercase: "is_lowercase_letter (fst (choice ascii_lowercase g))"
proof -
  have len: "length ascii_lowercase = 26" by (simp add: ascii_lowercase_def cps_def)
  have all: "list_all is_lowercase_letter ascii_lowercase"
    by (simp add: ascii_lowercase_def cps_def is_lowercase_letter_def)
  have "g 0 mod 26 < length ascii_lowercase" using len by simp
  then have "is_lowercase_letter (ascii_lowercase ! (g 0 mod 26))"
    using all by (simp add: list_all_length)
  then show ?thesis by (simp add: choice_def randbelow_def len)
qed

lemma random_choices_length: "length (fst (random_choices k g)) = k"
  by (induction k arbitrary: g) (simp_all add: split_beta Let_def)

lemma random_choices_lowercase: "list_all is_lowercase_letter (fst (random_choices k g))"
  by (induction k arbitrary: g) (simp_all add: split_beta Let_def choice_lowercase)

text \<open>
  Claim C6. For every prefix and whatever the entropy source yields,
  \<open>generate_session(prefix)\<close> returns a string of length \<open>len(prefix) + 12\<close> that starts
  with the prefix and whose remaining 12 characters are lowercase Latin letters.
\<close>

theorem generate_session_shape:
  "length (fst (generate_session prefix g)) = length prefix + 12
   \<and> take (length prefix) (fst (generate_session prefix g)) = prefix
   \<and> length (drop (length prefix) (fst (generate_session prefix g))) = 12
   \<and> list_all is_lowercase_letter (drop (length prefix) (fst (generate_session prefix g)))"
  by (simp add: generate_session_def split_beta random_choices_length random_choices_lowercase)

section \<open>The shape of the serialized message\<close>

















section \<open>Sequencing and logging\<close>

lemma and_then_Inl [simp]: "and_then (Inl ex, s) k = (Inl ex, s)"
  by (simp add: and_then_def)

lemma and_then_Inr [simp]: "and_then (Inr a, s) k = k a s"
  by (simp add: and_then_def)

lemma and_then_returns:
  assumes "and_then r k = (Inr b, s')"
  obtains a s1 where "r = (Inr a, s1)" and "k a s1 = (Inr b, s')"
  using assms by (cases r; cases "fst r") (auto simp: and_then_def)

lemma logging_fields [simp]:
  "self (logging lvl msg s) = self s"
  "entropy_left (logging lvl msg s) = entropy_left s"
  "sent (logging lvl msg s) = sent s"
  "http_calls (logging lvl msg s) = http_calls s"
  "connect_calls (logging lvl msg s) = connect_calls s"
  "logged (logging lvl msg s) = logged s @ [(lvl, msg)]"
  by (simp_all add: logging_def)

section \<open>What \<open>send_message\<close> changes\<close>

lemma send_message_self: "self (snd (send_message e func args s)) = self s"
  by (simp add: send_message_def Let_def split: option.splits)

text \<open>
  Claim C10. Whatever \<open>send_message\<close> does (the send returns, its error is swallowed, or
  an exception leaves the method), the handler's \<open>quote_session\<close>, \<open>chart_session\<close> and
  \<open>request_header\<close> are what they were.
\<close>

theorem send_message_frame:
  "quote_session (self (snd (send_message e func args s))) = quote_session (self s)
   \<and> chart_session (self (snd (send_message e func args s))) = chart_session (self s)
   \<and> request_header (self (snd (send_message e func args s))) = request_header (self s)"
  by (simp add: send_message_def Let_def split: option.splits)

section \<open>Send failures\<close>

text \<open>
  What the \<open>except\<close> clause does catch: if \<open>ws.send\<close> raises a built-in
  \<open>ConnectionError\<close> or \<open>TimeoutError\<close>, \<open>send_message\<close> returns normally; the only
  changes of the state are the one call of \<open>send\<close> (no second attempt, no other call on
  the connection) and the two log records, the second of them the error.
\<close>

theorem send_message_swallows:
  assumes "ws (self s) = Some w"
    and "ws_send e (map fst (sent s)) (create_message func args) = Some ex"
    and "exn_class_of ex = ConnectionError \<or> exn_class_of ex = TimeoutError"
  shows "send_message e func args s =
     (Inr (),
      s\<lparr>sent := sent s @ [(create_message func args, Some ex)],
        logged := logged s @
          [(DEBUG, cps ''Sending message: '' @ create_message func args),
           (ERROR, cps ''Failed to send message: '' @ exn_text ex)]\<rparr>)"
  using assms by (auto simp: send_message_def Let_def logging_def)

theorem send_message_swallows_witness:
  "ws (self ready_state) \<noteq> None
   \<and> ws_send broken_pipe (map fst (sent ready_state)) (create_message (cps ''set_locale'') [JStr (cps ''en''), JStr (cps ''US'')])
       = Some (Exn ConnectionError (cps ''[Errno 32] Broken pipe''))
   \<and> fst (send_message broken_pipe (cps ''set_locale'') [JStr (cps ''en''), JStr (cps ''US'')] ready_state) = Inr ()
   \<and> map fst (sent (snd (send_message broken_pipe (cps ''set_locale'') [JStr (cps ''en''), JStr (cps ''US'')] ready_state)))
       = [create_message (cps ''set_locale'') [JStr (cps ''en''), JStr (cps ''US'')]]"
proof -
  have h1: "ws (self ready_state) = Some (WebSocket (cps ''wss://data.tradingview.com/socket.io/websocket''))"
    by (simp add: ready_state_def)
  have h2: "ws_send broken_pipe (map fst (sent ready_state))
       (create_message (cps ''set_locale'') [JStr (cps ''en''), JStr (cps ''US'')])
     = Some (Exn ConnectionError (cps ''[Errno 32] Broken pipe''))"
    by (simp add: broken_pipe_def all_well_def)
  have h3: "exn_class_of (Exn ConnectionError (cps ''[Errno 32] Broken pipe'')) = ConnectionError
     \<or> exn_class_of (Exn ConnectionError (cps ''[Errno 32] Broken pipe'')) = TimeoutError"
    by simp
  have s0: "sent ready_state = []" by (simp add: ready_state_def)
  show ?thesis using send_message_swallows [OF h1 h2 h3] h1 h2 s0 by simp
qed

text \<open>
  Claim C4 has \<open>send_message\<close> swallow every failure of \<open>send\<close>. On a closed socket
  the \<open>send\<close> of websocket-client raises \<open>WebSocketConnectionClosedException\<close>, which
  is no built-in \<open>ConnectionError\<close>: the \<open>except\<close> clause misses it, and the exception
  reaches the caller of \<open>send_message\<close>.
\<close>

theorem send_message_propagates_other:
  "ws (self ready_state) \<noteq> None
   \<and> ws_send closed_socket (map fst (sent ready_state)) (create_message (cps ''set_locale'') [JStr (cps ''en''), JStr (cps ''US'')])
       = Some (Exn OtherException (cps ''socket is already closed.''))
   \<and> fst (send_message closed_socket (cps ''set_locale'') [JStr (cps ''en''), JStr (cps ''US'')] ready_state)
       = Inl (Exn OtherException (cps ''socket is already closed.''))"
  by (simp add: send_message_def Let_def ready_state_def closed_socket_def all_well_def logging_def)

section \<open>Failures of the token request\<close>

lemma raise_for_status_class:
  "raise_for_status r = Some ex \<Longrightarrow> exn_class_of ex = RequestException"
  by (auto simp: raise_for_status_def split: if_splits)

lemma raise_for_status_error:
  "400 \<le> status_code r \<Longrightarrow> status_code r < 600 \<Longrightarrow> \<exists>ex. raise_for_status r = Some ex"
  by (auto simp: raise_for_status_def)

lemma raise_for_status_quiet:
  "\<not> (400 \<le> status_code r \<and> status_code r < 600) \<Longrightarrow> raise_for_status r = None"
  by (auto simp: raise_for_status_def)

text \<open>
  Claim C7, as amended. If \<open>requests.get\<close> raises a \<open>RequestException\<close> (a timeout,
  a failed name resolution, a refused connection), or returns a response with a status
  from 400 to 599, \<open>_get_auth_token\<close> returns \<open>None\<close> and logs one error; nothing is
  raised. A response with any other status raises nothing either and is searched like a
  successful one: the result is what the search of its body finds, and nothing is logged.
\<close>

theorem get_auth_token_failure:
  "(requests_get e (cps ''https://www.tradingview.com/disclaimer/'') [(cps ''sessionid'', session_id)] = Inl ex
      \<and> exn_class_of ex = RequestException
    \<longrightarrow> fst (get_auth_token e session_id s) = Inr None
        \<and> logged (snd (get_auth_token e session_id s)) =
            logged s @ [(ERROR, cps ''HTTP request failed while getting auth token: '' @ exn_text ex)])
   \<and> (requests_get e (cps ''https://www.tradingview.com/disclaimer/'') [(cps ''sessionid'', session_id)] = Inr r
      \<and> 400 \<le> status_code r \<and> status_code r < 600
    \<longrightarrow> fst (get_auth_token e session_id s) = Inr None
        \<and> (\<exists>t. logged (snd (get_auth_token e session_id s)) =
            logged s @ [(ERROR, cps ''HTTP request failed while getting auth token: '' @ t)]))
   \<and> (requests_get e (cps ''https://www.tradingview.com/disclaimer/'') [(cps ''sessionid'', session_id)] = Inr r
      \<and> \<not> (400 \<le> status_code r \<and> status_code r < 600)
    \<longrightarrow> get_auth_token e session_id s =
          (Inr (re_search (response_text r)),
           s\<lparr>http_calls := http_calls s @
              [(cps ''https://www.tradingview.com/disclaimer/'', [(cps ''sessionid'', session_id)])]\<rparr>))"
proof (intro conjI impI)
  assume a: "requests_get e (cps ''https://www.tradingview.com/disclaimer/'') [(cps ''sessionid'', session_id)] = Inl ex
      \<and> exn_class_of ex = RequestException"
  then have t: "get_auth_token_try e session_id = Inl ex"
    by (simp add: get_auth_token_try_def)
  show "fst (get_auth_token e session_id s) = Inr None"
    using a t by (simp add: get_auth_token_def Let_def)
  show "logged (snd (get_auth_token e session_id s)) =
            logged s @ [(ERROR, cps ''HTTP request failed while getting auth token: '' @ exn_text ex)]"
    using a t by (simp add: get_auth_token_def Let_def)
next
  assume b: "requests_get e (cps ''https://www.tradingview.com/disclaimer/'') [(cps ''sessionid'', session_id)] = Inr r
      \<and> 400 \<le> status_code r \<and> status_code r < 600"
  then obtain ex where ex: "raise_for_status r = Some ex"
    using raise_for_status_error by blast
  then have c: "exn_class_of ex = RequestException" by (rule raise_for_status_class)
  have t: "get_auth_token_try e session_id = Inl ex"
    using b ex by (simp add: get_auth_token_try_def)
  show "fst (get_auth_token e session_id s) = Inr None"
    using c t by (simp add: get_auth_token_def Let_def)
  show "\<exists>t. logged (snd (get_auth_token e session_id s)) =
            logged s @ [(ERROR, cps ''HTTP request failed while getting auth token: '' @ t)]"
    using c t by (simp add: get_auth_token_def Let_def)
next
  assume d: "requests_get e (cps ''https://www.tradingview.com/disclaimer/'') [(cps ''sessionid'', session_id)] = Inr r
      \<and> \<not> (400 \<le> status_code r \<and> status_code r < 600)"
  then have q: "raise_for_status r = None" by (intro raise_for_status_quiet) blast
  have t: "get_auth_token_try e session_id = Inr (re_search (response_text r))"
    using d q by (simp add: get_auth_token_try_def)
  show "get_auth_token e session_id s =
          (Inr (re_search (response_text r)),
           s\<lparr>http_calls := http_calls s @
              [(cps ''https://www.tradingview.com/disclaimer/'', [(cps ''sessionid'', session_id)])]\<rparr>)"
    using t by (simp add: get_auth_token_def Let_def)
qed

theorem get_auth_token_failure_witness:
  "requests_get dns_failure (cps ''https://www.tradingview.com/disclaimer/'') [(cps ''sessionid'', cps ''sid'')]
     = Inl (Exn RequestException (cps ''Failed to resolve www.tradingview.com''))
   \<and> fst (get_auth_token dns_failure (cps ''sid'') fresh_state) = Inr None
   \<and> requests_get forbidden (cps ''https://www.tradingview.com/disclaimer/'') [(cps ''sessionid'', cps ''sid'')]
     = Inr (token_page\<lparr>status_code := 403, reason := cps ''Forbidden''\<rparr>)
   \<and> fst (get_auth_token forbidden (cps ''sid'') fresh_state) = Inr None
   \<and> requests_get all_well (cps ''https://www.tradingview.com/disclaimer/'') [(cps ''sessionid'', cps ''sid'')]
     = Inr token_page
   \<and> status_code token_page = 200
   \<and> fst (get_auth_token all_well (cps ''sid'') fresh_state) = Inr (re_search (response_text token_page))"
proof -
  have h1: "requests_get dns_failure (cps ''https://www.tradingview.com/disclaimer/'') [(cps ''sessionid'', cps ''sid'')]
     = Inl (Exn RequestException (cps ''Failed to resolve www.tradingview.com''))
     \<and> exn_class_of (Exn RequestException (cps ''Failed to resolve www.tradingview.com'')) = RequestException"
    by (simp add: dns_failure_def all_well_def)
  have h2: "requests_get forbidden (cps ''https://www.tradingview.com/disclaimer/'') [(cps ''sessionid'', cps ''sid'')]
     = Inr (token_page\<lparr>status_code := 403, reason := cps ''Forbidden''\<rparr>)
     \<and> 400 \<le> status_code (token_page\<lparr>status_code := 403, reason := cps ''Forbidden''\<rparr>)
     \<and> status_code (token_page\<lparr>status_code := 403, reason := cps ''Forbidden''\<rparr>) < 600"
    by (simp add: forbidden_def all_well_def)
  have sc: "status_code token_page = 200" by (simp add: token_page_def)
  have h3: "requests_get all_well (cps ''https://www.tradingview.com/disclaimer/'') [(cps ''sessionid'', cps ''sid'')]
     = Inr token_page
     \<and> \<not> (400 \<le> status_code token_page \<and> status_code token_page < 600)"
    by (simp add: all_well_def sc)
  from h1 get_auth_token_failure [of dns_failure "cps ''sid''" "Exn RequestException (cps ''Failed to resolve www.tradingview.com'')" fresh_state]
  have r1: "fst (get_auth_token dns_failure (cps ''sid'') fresh_state) = Inr None" by blast
  from h2 get_auth_token_failure [of forbidden "cps ''sid''" _ fresh_state "token_page\<lparr>status_code := 403, reason := cps ''Forbidden''\<rparr>"]
  have r2: "fst (get_auth_token forbidden (cps ''sid'') fresh_state) = Inr None" by blast
  from h3 get_auth_token_failure [of all_well "cps ''sid''" _ fresh_state token_page]
  have "get_auth_token all_well (cps ''sid'') fresh_state =
          (Inr (re_search (response_text token_page)),
           fresh_state\<lparr>http_calls := http_calls fresh_state @
              [(cps ''https://www.tradingview.com/disclaimer/'', [(cps ''sessionid'', cps ''sid'')])]\<rparr>)"
    by blast
  then have r3: "fst (get_auth_token all_well (cps ''sid'') fresh_state) = Inr (re_search (response_text token_page))"
    by simp
  show ?thesis using h1 h2 h3 sc r1 r2 r3 by blast
qed

text \<open>
  Claim C7 as stated has every status outside 200 to 299 end in \<open>None\<close>.
  \<open>raise_for_status\<close> raises from 400 on only: a response with status 300 is searched
  like a successful one, and the token in its body is returned.
\<close>

theorem get_auth_token_status_300:
  "requests_get multiple_choices (cps ''https://www.tradingview.com/disclaimer/'') [(cps ''sessionid'', cps ''sid'')]
     = Inr (token_page\<lparr>status_code := 300, reason := cps ''Multiple Choices''\<rparr>)
   \<and> \<not> (200 \<le> status_code (token_page\<lparr>status_code := 300, reason := cps ''Multiple Choices''\<rparr>)
        \<and> status_code (token_page\<lparr>status_code := 300, reason := cps ''Multiple Choices''\<rparr>) < 300)
   \<and> fst (get_auth_token multiple_choices (cps ''sid'') fresh_state) = Inr (Some (cps ''abc''))"
  by code_simp

section \<open>The initialization sequence\<close>

lemma send_message_returns:
  assumes "send_message e func args s = (Inr u, s')"
  shows "map fst (sent s') = map fst (sent s) @ [create_message func args]"
    and "self s' = self s"
  using assms by (auto simp: send_message_def Let_def split: option.splits if_splits)

lemma send_message_first:
  assumes "ws (self s) = Some w"
  shows "\<exists>outcome. sent (snd (send_message e func args s)) = sent s @ [(create_message func args, outcome)]"
  using assms by (simp add: send_message_def Let_def split: option.splits)

lemma send_message_appends:
  "\<exists>ys. sent (snd (send_message e func args s)) = sent s @ ys"
  by (simp add: send_message_def Let_def split: option.splits)

lemma and_then_appends:
  assumes "\<exists>ys. sent (snd r) = sent s @ ys"
    and "\<And>a s1. \<exists>ys. sent (snd (k a s1)) = sent s1 @ ys"
  shows "\<exists>ys. sent (snd (and_then r k)) = sent s @ ys"
proof (cases r)
  case (Pair x s1)
  show ?thesis
  proof (cases x)
    case (Inl ex)
    with Pair assms(1) show ?thesis by simp
  next
    case (Inr a)
    from assms(1) Pair obtain ys where ys: "sent s1 = sent s @ ys" by auto
    from assms(2) [of a s1] obtain zs where "sent (snd (k a s1)) = sent s1 @ zs" by blast
    with ys Pair Inr show ?thesis by simp
  qed
qed

lemma initialize_sessions_returns:
  assumes "initialize_sessions e quote_sid chart_sid auth_token s = (Inr u, s')"
  shows "map fst (sent s') = map fst (sent s) @
      [create_message (cps ''set_auth_token'') [JStr auth_token],
       create_message (cps ''set_locale'') [JStr (cps ''en''), JStr (cps ''US'')],
       create_message (cps ''chart_create_session'') [JStr chart_sid, JStr []],
       create_message (cps ''quote_create_session'') [JStr quote_sid],
       create_message (cps ''quote_set_fields'') (JStr quote_sid # get_quote_fields),
       create_message (cps ''quote_hibernate_all'') [JStr quote_sid]]"
    and "self s' = self s"
proof -
  from assms obtain u1 s1 u2 s2 u3 s3 u4 s4 u5 s5 where
    m1: "send_message e (cps ''set_auth_token'') [JStr auth_token] s = (Inr u1, s1)" and
    m2: "send_message e (cps ''set_locale'') [JStr (cps ''en''), JStr (cps ''US'')] s1 = (Inr u2, s2)" and
    m3: "send_message e (cps ''chart_create_session'') [JStr chart_sid, JStr []] s2 = (Inr u3, s3)" and
    m4: "send_message e (cps ''quote_create_session'') [JStr quote_sid] s3 = (Inr u4, s4)" and
    m5: "send_message e (cps ''quote_set_fields'') (JStr quote_sid # get_quote_fields) s4 = (Inr u5, s5)" and
    m6: "send_message e (cps ''quote_hibernate_all'') [JStr quote_sid] s5 = (Inr u, s')"
    unfolding initialize_sessions_def by (elim and_then_returns) blast
  note r = send_message_returns
  show "map fst (sent s') = map fst (sent s) @
      [create_message (cps ''set_auth_token'') [JStr auth_token],
       create_message (cps ''set_locale'') [JStr (cps ''en''), JStr (cps ''US'')],
       create_message (cps ''chart_create_session'') [JStr chart_sid, JStr []],
       create_message (cps ''quote_create_session'') [JStr quote_sid],
       create_message (cps ''quote_set_fields'') (JStr quote_sid # get_quote_fields),
       create_message (cps ''quote_hibernate_all'') [JStr quote_sid]]"
    using r(1) [OF m1] r(1) [OF m2] r(1) [OF m3] r(1) [OF m4] r(1) [OF m5] r(1) [OF m6] by simp
  show "self s' = self s"
    using r(2) [OF m1] r(2) [OF m2] r(2) [OF m3] r(2) [OF m4] r(2) [OF m5] r(2) [OF m6] by simp
qed

lemma initialize_returns:
  assumes "initialize e auth_token s = (Inr u, s')"
  shows "\<exists>quote_sid chart_sid.
      quote_session (self s') = Some quote_sid \<and> chart_session (self s') = Some chart_sid \<and>
      map fst (sent s') = map fst (sent s) @
      [create_message (cps ''set_auth_token'') [JStr auth_token],
       create_message (cps ''set_locale'') [JStr (cps ''en''), JStr (cps ''US'')],
       create_message (cps ''chart_create_session'') [JStr chart_sid, JStr []],
       create_message (cps ''quote_create_session'') [JStr quote_sid],
       create_message (cps ''quote_set_fields'') (JStr quote_sid # get_quote_fields),
       create_message (cps ''quote_hibernate_all'') [JStr quote_sid]]"
proof -
  obtain quote_sid g1 where q: "generate_session (cps ''qs_'') (entropy_left s) = (quote_sid, g1)"
    by (cases "generate_session (cps ''qs_'') (entropy_left s)")
  obtain chart_sid g2 where c: "generate_session (cps ''cs_'') g1 = (chart_sid, g2)"
    by (cases "generate_session (cps ''cs_'') g1")
  define s1 where "s1 = logging INFO
                 (cps ''Quote session generated: '' @ quote_sid @
                  cps '', Chart session generated: '' @ chart_sid)
                 (s\<lparr>entropy_left := g2\<rparr>)"
  from assms q c have "and_then (initialize_sessions e quote_sid chart_sid auth_token s1) (\<lambda>_ s2.
           (Inr (), s2\<lparr>self := (self s2)\<lparr>quote_session := Some quote_sid,
                                          chart_session := Some chart_sid\<rparr>\<rparr>)) = (Inr u, s')"
    by (simp add: initialize_def s1_def)
  then obtain u2 s2 where
    i: "initialize_sessions e quote_sid chart_sid auth_token s1 = (Inr u2, s2)" and
    f: "s' = s2\<lparr>self := (self s2)\<lparr>quote_session := Some quote_sid, chart_session := Some chart_sid\<rparr>\<rparr>"
    by (elim and_then_returns) auto
  have "sent s1 = sent s" by (simp add: s1_def)
  with initialize_sessions_returns(1) [OF i] f show ?thesis by simp
qed

lemma quote_fields_names:
  "get_quote_fields = map (\<lambda>name. JStr (cps name))
     [''ch'', ''chp'', ''current_session'', ''description'', ''local_description'',
      ''language'', ''exchange'', ''fractional'', ''is_tradable'', ''lp'',
      ''lp_time'', ''minmov'', ''minmove2'', ''original_name'', ''pricescale'',
      ''pro_name'', ''short_name'', ''type'', ''update_mode'', ''volume'',
      ''currency_code'', ''rchp'', ''rtc'']"
  by (simp only: get_quote_fields_def)

text \<open>
  Claim C1. When the constructor returns a handler, the frames handed to the connection's
  \<open>send\<close> during initialization are exactly six, in this order: \<open>set_auth_token\<close> with
  the resolved token, \<open>set_locale\<close> with \<open>en\<close> and \<open>US\<close>, \<open>chart_create_session\<close> with
  the chart session and the empty string, \<open>quote_create_session\<close> with the quote session,
  \<open>quote_set_fields\<close> with the quote session and the 23 field names, and
  \<open>quote_hibernate_all\<close> with the quote session. (A frame whose \<open>send\<close> raised a
  swallowed error is in the list: it was handed to the transport.)
\<close>

theorem initialization_sequence:
  assumes "StreamHandler e websocket_url session_id s = (Inr h, s')"
  shows "\<exists>auth_token quote_sid chart_sid.
      fst (resolve_auth_token e session_id (s\<lparr>self := new_object\<rparr>)) = Inr auth_token \<and>
      quote_session h = Some quote_sid \<and> chart_session h = Some chart_sid \<and>
      length (map fst (sent s')) = 6 \<and>
      map fst (sent s') =
      [create_message (cps ''set_auth_token'') [JStr auth_token],
       create_message (cps ''set_locale'') [JStr (cps ''en''), JStr (cps ''US'')],
       create_message (cps ''chart_create_session'') [JStr chart_sid, JStr []],
       create_message (cps ''quote_create_session'') [JStr quote_sid],
       create_message (cps ''quote_set_fields'')
         (JStr quote_sid # map (\<lambda>name. JStr (cps name))
           [''ch'', ''chp'', ''current_session'', ''description'', ''local_description'',
            ''language'', ''exchange'', ''fractional'', ''is_tradable'', ''lp'',
            ''lp_time'', ''minmov'', ''minmove2'', ''original_name'', ''pricescale'',
            ''pro_name'', ''short_name'', ''type'', ''update_mode'', ''volume'',
            ''currency_code'', ''rchp'', ''rtc'']),
       create_message (cps ''quote_hibernate_all'') [JStr quote_sid]]"
proof -
  from assms obtain u where i: "init e websocket_url session_id (s\<lparr>self := new_object\<rparr>) = (Inr u, s')"
    and h: "h = self s'"
    unfolding StreamHandler_def by (elim and_then_returns) auto
  from i obtain auth_token s1 where
    r: "resolve_auth_token e session_id (s\<lparr>self := new_object\<rparr>) = (Inr auth_token, s1)" and
    k: "(let s2 = s1\<lparr>self := (self s1)\<lparr>request_header := Some the_request_header\<rparr>\<rparr>;
            s3 = s2\<lparr>connect_calls := connect_calls s2 @ [(websocket_url, the_request_header)]\<rparr>
        in case create_connection e websocket_url the_request_header of
             Some ex \<Rightarrow> (Inl ex, s3)
           | None \<Rightarrow>
               initialize e auth_token
                 (s3\<lparr>self := (self s3)\<lparr>ws := Some (WebSocket websocket_url)\<rparr>, sent := []\<rparr>)) = (Inr u, s')"
    unfolding init_def by (elim and_then_returns)
  define s2 where "s2 = s1\<lparr>self := (self s1)\<lparr>request_header := Some the_request_header\<rparr>\<rparr>"
  define s3 where "s3 = s2\<lparr>connect_calls := connect_calls s2 @ [(websocket_url, the_request_header)]\<rparr>"
  define s4 where "s4 = s3\<lparr>self := (self s3)\<lparr>ws := Some (WebSocket websocket_url)\<rparr>, sent := []\<rparr>"
  from k have "initialize e auth_token s4 = (Inr u, s')"
    unfolding Let_def s2_def [symmetric] s3_def [symmetric] s4_def [symmetric]
    by (simp split: option.splits)
  from initialize_returns [OF this] obtain quote_sid chart_sid where
    "quote_session (self s') = Some quote_sid" "chart_session (self s') = Some chart_sid"
    "map fst (sent s') = map fst (sent s4) @
      [create_message (cps ''set_auth_token'') [JStr auth_token],
       create_message (cps ''set_locale'') [JStr (cps ''en''), JStr (cps ''US'')],
       create_message (cps ''chart_create_session'') [JStr chart_sid, JStr []],
       create_message (cps ''quote_create_session'') [JStr quote_sid],
       create_message (cps ''quote_set_fields'') (JStr quote_sid # get_quote_fields),
       create_message (cps ''quote_hibernate_all'') [JStr quote_sid]]"
    by blast
  moreover have "sent s4 = []" by (simp add: s4_def)
  ultimately show ?thesis using r h
    by (simp only: quote_fields_names fst_conv) simp
qed

section \<open>The first frame\<close>

lemma and_then_first:
  assumes "\<exists>outcome rest. sent (snd r) = pre @ (frame, outcome) # rest"
    and "\<And>a s1. \<exists>ys. sent (snd (k a s1)) = sent s1 @ ys"
  shows "\<exists>outcome rest. sent (snd (and_then r k)) = pre @ (frame, outcome) # rest"
proof (cases r)
  case (Pair x s1)
  show ?thesis
  proof (cases x)
    case (Inl ex)
    with Pair assms(1) show ?thesis by simp
  next
    case (Inr a)
    from assms(1) Pair obtain outcome rest where ys: "sent s1 = pre @ (frame, outcome) # rest" by auto
    from assms(2) [of a s1] obtain zs where "sent (snd (k a s1)) = sent s1 @ zs" by blast
    with ys Pair Inr show ?thesis by simp
  qed
qed

lemma initialize_sessions_first:
  assumes "ws (self s) = Some w"
  shows "\<exists>outcome rest. sent (snd (initialize_sessions e quote_sid chart_sid auth_token s)) =
      sent s @ (create_message (cps ''set_auth_token'') [JStr auth_token], outcome) # rest"
  unfolding initialize_sessions_def
proof (rule and_then_first)
  from send_message_first [OF assms]
  show "\<exists>outcome rest. sent (snd (send_message e (cps ''set_auth_token'') [JStr auth_token] s)) =
      sent s @ (create_message (cps ''set_auth_token'') [JStr auth_token], outcome) # rest"
    by blast
qed (intro and_then_appends send_message_appends)

lemma initialize_first:
  assumes "ws (self s) = Some w"
  shows "\<exists>outcome rest. sent (snd (initialize e auth_token s)) =
      sent s @ (create_message (cps ''set_auth_token'') [JStr auth_token], outcome) # rest"
proof -
  obtain quote_sid g1 where q: "generate_session (cps ''qs_'') (entropy_left s) = (quote_sid, g1)"
    by (cases "generate_session (cps ''qs_'') (entropy_left s)")
  obtain chart_sid g2 where c: "generate_session (cps ''cs_'') g1 = (chart_sid, g2)"
    by (cases "generate_session (cps ''cs_'') g1")
  define s1 where "s1 = logging INFO
                 (cps ''Quote session generated: '' @ quote_sid @
                  cps '', Chart session generated: '' @ chart_sid)
                 (s\<lparr>entropy_left := g2\<rparr>)"
  have i: "initialize e auth_token s =
      and_then (initialize_sessions e quote_sid chart_sid auth_token s1) (\<lambda>_ s2.
           (Inr (), s2\<lparr>self := (self s2)\<lparr>quote_session := Some quote_sid,
                                          chart_session := Some chart_sid\<rparr>\<rparr>))"
    using q c by (simp add: initialize_def s1_def)
  have "ws (self s1) = Some w" "sent s1 = sent s" using assms by (simp_all add: s1_def)
  with initialize_sessions_first [of s1 w e quote_sid chart_sid auth_token]
  have "\<exists>outcome rest. sent (snd (initialize_sessions e quote_sid chart_sid auth_token s1)) =
      sent s @ (create_message (cps ''set_auth_token'') [JStr auth_token], outcome) # rest"
    by simp
  then show ?thesis unfolding i by (rule and_then_first) simp
qed

lemma init_connected:
  assumes "resolve_auth_token e session_id s = (Inr auth_token, s1)"
    and "create_connection e websocket_url the_request_header = None"
  shows "init e websocket_url session_id s =
     initialize e auth_token
       (s1\<lparr>connect_calls := connect_calls s1 @ [(websocket_url, the_request_header)],
           self := (self s1)\<lparr>request_header := Some the_request_header,
                              ws := Some (WebSocket websocket_url)\<rparr>,
           sent := []\<rparr>)"
  using assms by (simp add: init_def Let_def)

lemma init_refused:
  assumes "resolve_auth_token e session_id s = (Inr auth_token, s1)"
    and "create_connection e websocket_url the_request_header = Some ex"
  shows "init e websocket_url session_id s =
     (Inl ex,
      s1\<lparr>self := (self s1)\<lparr>request_header := Some the_request_header\<rparr>,
          connect_calls := connect_calls s1 @ [(websocket_url, the_request_header)]\<rparr>)"
  using assms by (simp add: init_def Let_def)

lemma resolve_without_credential:
  "resolve_auth_token e None s = (Inr (cps ''unauthorized_user_token''), s)"
  by (simp add: resolve_auth_token_def unauthorized_user_token_def)

text \<open>
  Claim C3. Constructed without a session credential, the handler asks for no token: the
  token is the literal \<open>unauthorized_user_token\<close>, nothing is requested and nothing
  logged for it. Once the connection is established, the first frame handed to its
  \<open>send\<close> is \<open>set_auth_token\<close> with the parameter list \<open>["unauthorized_user_token"]\<close>.
\<close>

theorem unauthorized_first_message:
  assumes "create_connection e websocket_url the_request_header = None"
  shows "resolve_auth_token e None (s\<lparr>self := new_object\<rparr>) =
           (Inr (cps ''unauthorized_user_token''), s\<lparr>self := new_object\<rparr>)
    \<and> (\<exists>outcome rest. sent (snd (StreamHandler e websocket_url None s)) =
          (create_message (cps ''set_auth_token'') [JStr (cps ''unauthorized_user_token'')], outcome) # rest)"
proof
  show r: "resolve_auth_token e None (s\<lparr>self := new_object\<rparr>) =
           (Inr (cps ''unauthorized_user_token''), s\<lparr>self := new_object\<rparr>)"
    by (rule resolve_without_credential)
  define s0 where "s0 = s\<lparr>self := new_object\<rparr>"
  define s4 where "s4 = s0\<lparr>connect_calls := connect_calls s0 @ [(websocket_url, the_request_header)],
           self := (self s0)\<lparr>request_header := Some the_request_header,
                              ws := Some (WebSocket websocket_url)\<rparr>,
           sent := []\<rparr>"
  have "init e websocket_url None s0 = initialize e (cps ''unauthorized_user_token'') s4"
    unfolding s4_def using r assms unfolding s0_def [symmetric] by (rule init_connected)
  moreover have "ws (self s4) = Some (WebSocket websocket_url)" "sent s4 = []"
    by (simp_all add: s4_def)
  ultimately have "\<exists>outcome rest. sent (snd (init e websocket_url None s0)) =
      [] @ (create_message (cps ''set_auth_token'') [JStr (cps ''unauthorized_user_token'')], outcome) # rest"
    using initialize_first [of s4 "WebSocket websocket_url" e "cps ''unauthorized_user_token''"] by simp
  then have "\<exists>outcome rest. sent (snd (StreamHandler e websocket_url None s)) =
      [] @ (create_message (cps ''set_auth_token'') [JStr (cps ''unauthorized_user_token'')], outcome) # rest"
    unfolding StreamHandler_def s0_def by (rule and_then_first) simp
  then show "\<exists>outcome rest. sent (snd (StreamHandler e websocket_url None s)) =
          (create_message (cps ''set_auth_token'') [JStr (cps ''unauthorized_user_token'')], outcome) # rest"
    by simp
qed

theorem unauthorized_first_message_witness:
  "create_connection all_well (cps ''wss://data.tradingview.com/socket.io/websocket'') the_request_header = None
   \<and> (\<exists>outcome rest. sent (snd (StreamHandler all_well (cps ''wss://data.tradingview.com/socket.io/websocket'') None fresh_state)) =
          (create_message (cps ''set_auth_token'') [JStr (cps ''unauthorized_user_token'')], outcome) # rest)"
proof -
  have h: "create_connection all_well (cps ''wss://data.tradingview.com/socket.io/websocket'') the_request_header = None"
    by (simp add: all_well_def)
  from unauthorized_first_message [OF h, of fresh_state] h show ?thesis by blast
qed

section \<open>A construction that succeeds\<close>

lemma send_message_accepted:
  assumes "ws (self s) = Some w" and "\<And>before frame. ws_send e before frame = None"
  shows "\<exists>s'. send_message e func args s = (Inr (), s') \<and> ws (self s') = Some w"
  using assms by (simp add: send_message_def Let_def)

lemma initialize_sessions_accepted:
  assumes "ws (self s) = Some w" and a: "\<And>before frame. ws_send e before frame = None"
  shows "\<exists>s'. initialize_sessions e quote_sid chart_sid auth_token s = (Inr (), s')"
proof -
  note sm = send_message_accepted [OF _ a]
  from sm [OF assms(1)] obtain s1 where
    m1: "send_message e (cps ''set_auth_token'') [JStr auth_token] s = (Inr (), s1)" and w1: "ws (self s1) = Some w"
    by blast
  from sm [OF w1] obtain s2 where
    m2: "send_message e (cps ''set_locale'') [JStr (cps ''en''), JStr (cps ''US'')] s1 = (Inr (), s2)" and w2: "ws (self s2) = Some w"
    by blast
  from sm [OF w2] obtain s3 where
    m3: "send_message e (cps ''chart_create_session'') [JStr chart_sid, JStr []] s2 = (Inr (), s3)" and w3: "ws (self s3) = Some w"
    by blast
  from sm [OF w3] obtain s4 where
    m4: "send_message e (cps ''quote_create_session'') [JStr quote_sid] s3 = (Inr (), s4)" and w4: "ws (self s4) = Some w"
    by blast
  from sm [OF w4] obtain s5 where
    m5: "send_message e (cps ''quote_set_fields'') (JStr quote_sid # get_quote_fields) s4 = (Inr (), s5)" and w5: "ws (self s5) = Some w"
    by blast
  from sm [OF w5] obtain s6 where
    m6: "send_message e (cps ''quote_hibernate_all'') [JStr quote_sid] s5 = (Inr (), s6)"
    by blast
  show ?thesis unfolding initialize_sessions_def using m1 m2 m3 m4 m5 m6 by simp
qed

lemma initialize_accepted:
  assumes "ws (self s) = Some w" and a: "\<And>before frame. ws_send e before frame = None"
  shows "\<exists>s'. initialize e auth_token s = (Inr (), s')"
proof -
  obtain quote_sid g1 where q: "generate_session (cps ''qs_'') (entropy_left s) = (quote_sid, g1)"
    by (cases "generate_session (cps ''qs_'') (entropy_left s)")
  obtain chart_sid g2 where c: "generate_session (cps ''cs_'') g1 = (chart_sid, g2)"
    by (cases "generate_session (cps ''cs_'') g1")
  define s1 where "s1 = logging INFO
                 (cps ''Quote session generated: '' @ quote_sid @
                  cps '', Chart session generated: '' @ chart_sid)
                 (s\<lparr>entropy_left := g2\<rparr>)"
  have "ws (self s1) = Some w" using assms(1) by (simp add: s1_def)
  from initialize_sessions_accepted [OF this a] obtain s2 where
    "initialize_sessions e quote_sid chart_sid auth_token s1 = (Inr (), s2)" by blast
  then show ?thesis using q c by (simp add: initialize_def s1_def [symmetric])
qed

lemma construction_accepted:
  assumes "resolve_auth_token e session_id (s\<lparr>self := new_object\<rparr>) = (Inr auth_token, s1)"
    and "create_connection e websocket_url the_request_header = None"
    and a: "\<And>before frame. ws_send e before frame = None"
  shows "\<exists>h s'. StreamHandler e websocket_url session_id s = (Inr h, s')"
proof -
  have "\<exists>s'. init e websocket_url session_id (s\<lparr>self := new_object\<rparr>) = (Inr (), s')"
    unfolding init_connected [OF assms(1,2)]
    by (rule initialize_accepted [OF _ a]) simp
  then show ?thesis by (auto simp: StreamHandler_def)
qed

theorem initialization_sequence_witness:
  "\<exists>h s'. StreamHandler all_well (cps ''wss://data.tradingview.com/socket.io/websocket'') None fresh_state = (Inr h, s')
      \<and> length (map fst (sent s')) = 6"
proof -
  have "\<exists>h s'. StreamHandler all_well (cps ''wss://data.tradingview.com/socket.io/websocket'') None fresh_state = (Inr h, s')"
    by (rule construction_accepted [OF resolve_without_credential]) (simp_all add: all_well_def)
  then obtain h s' where
    h: "StreamHandler all_well (cps ''wss://data.tradingview.com/socket.io/websocket'') None fresh_state = (Inr h, s')"
    by blast
  from initialization_sequence [OF h] have "length (map fst (sent s')) = 6" by blast
  with h show ?thesis by blast
qed

section \<open>What makes construction fail\<close>

lemma send_message_same_view:
  assumes "same_view s t"
  shows "same_outcome (send_message e func args s) (send_message e func args t)"
  using assms
  by (simp add: same_outcome_def same_view_def send_message_def Let_def split: option.splits)

lemma and_then_same_outcome:
  assumes "same_outcome r r'"
    and "\<And>a s t. same_view s t \<Longrightarrow> same_outcome (k a s) (k' a t)"
  shows "same_outcome (and_then r k) (and_then r' k')"
proof (cases r)
  case r: (Pair x s)
  show ?thesis
  proof (cases r')
    case r': (Pair x' t)
    from assms(1) r r' have x: "x' = x" and v: "same_view s t"
      by (simp_all add: same_outcome_def)
    show ?thesis
    proof (cases x)
      case (Inl ex)
      with r r' x v show ?thesis by (simp add: same_outcome_def)
    next
      case (Inr a)
      with r r' x assms(2) [OF v] show ?thesis by simp
    qed
  qed
qed

lemma initialize_sessions_same_view:
  assumes "same_view s t"
  shows "same_outcome (initialize_sessions e quote_sid chart_sid auth_token s)
                      (initialize_sessions e quote_sid chart_sid auth_token t)"
  unfolding initialize_sessions_def
  by (intro and_then_same_outcome send_message_same_view assms)

lemma initialize_same_view:
  assumes "same_view s t"
  shows "same_outcome (initialize e auth_token s) (initialize e auth_token t)"
proof -
  have g: "entropy_left t = entropy_left s" using assms by (simp add: same_view_def)
  obtain quote_sid g1 where q: "generate_session (cps ''qs_'') (entropy_left s) = (quote_sid, g1)"
    by (cases "generate_session (cps ''qs_'') (entropy_left s)")
  obtain chart_sid g2 where c: "generate_session (cps ''cs_'') g1 = (chart_sid, g2)"
    by (cases "generate_session (cps ''cs_'') g1")
  define msg where "msg = cps ''Quote session generated: '' @ quote_sid @
                  cps '', Chart session generated: '' @ chart_sid"
  have v: "same_view (logging INFO msg (s\<lparr>entropy_left := g2\<rparr>)) (logging INFO msg (t\<lparr>entropy_left := g2\<rparr>))"
    using assms by (simp add: same_view_def)
  have "same_outcome
      (and_then (initialize_sessions e quote_sid chart_sid auth_token (logging INFO msg (s\<lparr>entropy_left := g2\<rparr>)))
         (\<lambda>_ s2. (Inr (), s2\<lparr>self := (self s2)\<lparr>quote_session := Some quote_sid,
                                          chart_session := Some chart_sid\<rparr>\<rparr>)))
      (and_then (initialize_sessions e quote_sid chart_sid auth_token (logging INFO msg (t\<lparr>entropy_left := g2\<rparr>)))
         (\<lambda>_ s2. (Inr (), s2\<lparr>self := (self s2)\<lparr>quote_session := Some quote_sid,
                                          chart_session := Some chart_sid\<rparr>\<rparr>)))"
    by (intro and_then_same_outcome initialize_sessions_same_view v)
       (simp add: same_outcome_def same_view_def)
  then show ?thesis using q c g by (simp add: initialize_def msg_def)
qed

lemma init_same_outcome:
  assumes "resolve_auth_token e session_id s = (Inr auth_token, s1)"
    and "resolve_auth_token e session_id' t = (Inr auth_token, t1)"
    and "same_view s1 t1"
  shows "fst (init e websocket_url session_id s) = fst (init e websocket_url session_id' t)
    \<and> self (snd (init e websocket_url session_id s)) = self (snd (init e websocket_url session_id' t))"
proof (cases "create_connection e websocket_url the_request_header")
  case None
  have "same_outcome (init e websocket_url session_id s) (init e websocket_url session_id' t)"
    unfolding init_connected [OF assms(1) None] init_connected [OF assms(2) None]
    using assms(3) by (intro initialize_same_view) (simp add: same_view_def)
  then show ?thesis by (simp add: same_outcome_def same_view_def)
next
  case (Some ex)
  show ?thesis
    unfolding init_refused [OF assms(1) Some] init_refused [OF assms(2) Some]
    using assms(3) by (simp add: same_view_def)
qed

lemma get_auth_token_same_view: "same_view (snd (get_auth_token e session_id s)) s"
  by (simp add: get_auth_token_def Let_def same_view_def split: sum.splits)

lemma get_auth_token_traces:
  "sent (snd (get_auth_token e session_id s)) = sent s"
  "connect_calls (snd (get_auth_token e session_id s)) = connect_calls s"
  by (simp_all add: get_auth_token_def Let_def split: sum.splits)

lemma resolve_auth_token_traces:
  "sent (snd (resolve_auth_token e session_id s)) = sent s
   \<and> connect_calls (snd (resolve_auth_token e session_id s)) = connect_calls s"
proof (cases session_id)
  case None
  then show ?thesis by (simp add: resolve_auth_token_def)
next
  case (Some sid)
  obtain r s1 where g: "get_auth_token e sid s = (r, s1)" by (cases "get_auth_token e sid s")
  with get_auth_token_traces [of e sid s] have "sent s1 = sent s" "connect_calls s1 = connect_calls s"
    by simp_all
  with Some g show ?thesis
    by (cases r) (simp_all add: resolve_auth_token_def split: option.splits)
qed

lemma resolve_unresolved:
  assumes "get_auth_token e sid s = (Inr None, s1)"
  shows "\<exists>s2. resolve_auth_token e (Some sid) s = (Inr (cps ''unauthorized_user_token''), s2) \<and> same_view s2 s"
proof (cases "sid = []")
  case True
  then show ?thesis
    by (simp add: resolve_auth_token_def unauthorized_user_token_def same_view_def)
next
  case False
  from get_auth_token_same_view [of e sid s] assms have "same_view s1 s" by simp
  with False assms show ?thesis
    by (simp add: resolve_auth_token_def unauthorized_user_token_def same_view_def)
qed

lemma get_auth_token_absorbed:
  "requests_get e (cps ''https://www.tradingview.com/disclaimer/'') [(cps ''sessionid'', sid)] = Inl ex' \<Longrightarrow>
     exn_class_of ex' = RequestException \<Longrightarrow> fst (get_auth_token e sid s) = Inr None"
  "requests_get e (cps ''https://www.tradingview.com/disclaimer/'') [(cps ''sessionid'', sid)] = Inr r \<Longrightarrow>
     400 \<le> status_code r \<and> status_code r < 600 \<Longrightarrow> fst (get_auth_token e sid s) = Inr None"
  "requests_get e (cps ''https://www.tradingview.com/disclaimer/'') [(cps ''sessionid'', sid)] = Inr r \<Longrightarrow>
     \<not> (400 \<le> status_code r \<and> status_code r < 600) \<Longrightarrow> re_search (response_text r) = None \<Longrightarrow>
     fst (get_auth_token e sid s) = Inr None"
proof -
  show "fst (get_auth_token e sid s) = Inr None"
    if "requests_get e (cps ''https://www.tradingview.com/disclaimer/'') [(cps ''sessionid'', sid)] = Inl ex'"
      and "exn_class_of ex' = RequestException"
    using that by (simp add: get_auth_token_def get_auth_token_try_def Let_def)
  show "fst (get_auth_token e sid s) = Inr None"
    if g: "requests_get e (cps ''https://www.tradingview.com/disclaimer/'') [(cps ''sessionid'', sid)] = Inr r"
      and st: "400 \<le> status_code r \<and> status_code r < 600"
  proof -
    from st obtain x where x: "raise_for_status r = Some x"
      using raise_for_status_error by blast
    then have "exn_class_of x = RequestException" by (rule raise_for_status_class)
    with g x show ?thesis by (simp add: get_auth_token_def get_auth_token_try_def Let_def)
  qed
  show "fst (get_auth_token e sid s) = Inr None"
    if g: "requests_get e (cps ''https://www.tradingview.com/disclaimer/'') [(cps ''sessionid'', sid)] = Inr r"
      and st: "\<not> (400 \<le> status_code r \<and> status_code r < 600)"
      and no: "re_search (response_text r) = None"
  proof -
    from st have "raise_for_status r = None" by (rule raise_for_status_quiet)
    with g no show ?thesis by (simp add: get_auth_token_def get_auth_token_try_def Let_def)
  qed
qed

lemma construction_without_token:
  assumes b: "fst (get_auth_token e sid (s\<lparr>self := new_object\<rparr>)) = Inr None"
  shows "fst (StreamHandler e websocket_url (Some sid) s) = fst (StreamHandler e websocket_url None s)"
proof -
  define s0 where "s0 = s\<lparr>self := new_object\<rparr>"
  obtain s1 where "get_auth_token e sid s0 = (Inr None, s1)"
    using b unfolding s0_def by (cases "get_auth_token e sid (s\<lparr>self := new_object\<rparr>)") simp
  from resolve_unresolved [OF this] obtain s2 where
    r: "resolve_auth_token e (Some sid) s0 = (Inr (cps ''unauthorized_user_token''), s2)" and
    v: "same_view s2 s0" by blast
  have r': "resolve_auth_token e None s0 = (Inr (cps ''unauthorized_user_token''), s0)"
    by (rule resolve_without_credential)
  from init_same_outcome [OF r r' v, of websocket_url]
  have "fst (init e websocket_url (Some sid) s0) = fst (init e websocket_url None s0)"
    and "self (snd (init e websocket_url (Some sid) s0)) = self (snd (init e websocket_url None s0))"
    by simp_all
  then show ?thesis
    unfolding StreamHandler_def s0_def [symmetric]
    by (cases "init e websocket_url (Some sid) s0"; cases "init e websocket_url None s0";
        cases "fst (init e websocket_url None s0)") (auto simp: and_then_def)
qed

text \<open>
  Claim C9, as amended. Once token resolution has returned, if \<open>create_connection\<close>
  raises, the constructor raises that exception: the connection was attempted once and
  nothing was sent. If the token request ends without a token (it raised a
  \<open>RequestException\<close>, or answered with a status from 400 to 599, or with a body in which
  the search finds nothing; in each case \<open>_get_auth_token\<close> returns \<open>None\<close>), the
  constructor ends as it does without a credential: with the same handler, or with the
  same exception from the transport.
\<close>

theorem construction_failures:
  "(fst (resolve_auth_token e session_id (s\<lparr>self := new_object\<rparr>)) = Inr auth_token
      \<and> create_connection e websocket_url the_request_header = Some ex
    \<longrightarrow> fst (StreamHandler e websocket_url session_id s) = Inl ex
      \<and> connect_calls (snd (StreamHandler e websocket_url session_id s)) =
          connect_calls s @ [(websocket_url, the_request_header)]
      \<and> sent (snd (StreamHandler e websocket_url session_id s)) = sent s)
   \<and> ((requests_get e (cps ''https://www.tradingview.com/disclaimer/'') [(cps ''sessionid'', sid)] = Inl ex'
         \<and> exn_class_of ex' = RequestException)
      \<or> (requests_get e (cps ''https://www.tradingview.com/disclaimer/'') [(cps ''sessionid'', sid)] = Inr r
         \<and> 400 \<le> status_code r \<and> status_code r < 600)
      \<or> (requests_get e (cps ''https://www.tradingview.com/disclaimer/'') [(cps ''sessionid'', sid)] = Inr r
         \<and> \<not> (400 \<le> status_code r \<and> status_code r < 600) \<and> re_search (response_text r) = None)
      \<or> fst (get_auth_token e sid (s\<lparr>self := new_object\<rparr>)) = Inr None
    \<longrightarrow> fst (StreamHandler e websocket_url (Some sid) s) = fst (StreamHandler e websocket_url None s))"
proof (rule conjI; rule impI)
  assume a: "fst (resolve_auth_token e session_id (s\<lparr>self := new_object\<rparr>)) = Inr auth_token
      \<and> create_connection e websocket_url the_request_header = Some ex"
  define s0 where "s0 = s\<lparr>self := new_object\<rparr>"
  obtain s1 where r: "resolve_auth_token e session_id s0 = (Inr auth_token, s1)"
    using a unfolding s0_def by (cases "resolve_auth_token e session_id (s\<lparr>self := new_object\<rparr>)") simp
  from resolve_auth_token_traces [of e session_id s0] r
  have t: "sent s1 = sent s" "connect_calls s1 = connect_calls s" by (simp_all add: s0_def)
  from a have c: "create_connection e websocket_url the_request_header = Some ex" by blast
  have i: "StreamHandler e websocket_url session_id s =
      (Inl ex, s1\<lparr>self := (self s1)\<lparr>request_header := Some the_request_header\<rparr>,
          connect_calls := connect_calls s1 @ [(websocket_url, the_request_header)]\<rparr>)"
    unfolding StreamHandler_def s0_def [symmetric] init_refused [OF r c] by simp
  show "fst (StreamHandler e websocket_url session_id s) = Inl ex
      \<and> connect_calls (snd (StreamHandler e websocket_url session_id s)) =
          connect_calls s @ [(websocket_url, the_request_header)]
      \<and> sent (snd (StreamHandler e websocket_url session_id s)) = sent s"
    unfolding i using t by simp
next
  assume "(requests_get e (cps ''https://www.tradingview.com/disclaimer/'') [(cps ''sessionid'', sid)] = Inl ex'
         \<and> exn_class_of ex' = RequestException)
      \<or> (requests_get e (cps ''https://www.tradingview.com/disclaimer/'') [(cps ''sessionid'', sid)] = Inr r
         \<and> 400 \<le> status_code r \<and> status_code r < 600)
      \<or> (requests_get e (cps ''https://www.tradingview.com/disclaimer/'') [(cps ''sessionid'', sid)] = Inr r
         \<and> \<not> (400 \<le> status_code r \<and> status_code r < 600) \<and> re_search (response_text r) = None)
      \<or> fst (get_auth_token e sid (s\<lparr>self := new_object\<rparr>)) = Inr None"
  then have "fst (get_auth_token e sid (s\<lparr>self := new_object\<rparr>)) = Inr None"
    using get_auth_token_absorbed [of e sid _ "s\<lparr>self := new_object\<rparr>"] by blast
  then show "fst (StreamHandler e websocket_url (Some sid) s) = fst (StreamHandler e websocket_url None s)"
    by (rule construction_without_token)
qed

theorem construction_failures_witness:
  "create_connection refused (cps ''wss://data.tradingview.com/socket.io/websocket'') the_request_header
     = Some (Exn ConnectionError (cps ''[Errno 111] Connection refused''))
   \<and> fst (StreamHandler refused (cps ''wss://data.tradingview.com/socket.io/websocket'') None fresh_state)
     = Inl (Exn ConnectionError (cps ''[Errno 111] Connection refused''))
   \<and> requests_get dns_failure (cps ''https://www.tradingview.com/disclaimer/'') [(cps ''sessionid'', cps ''sid'')]
     = Inl (Exn RequestException (cps ''Failed to resolve www.tradingview.com''))
   \<and> fst (StreamHandler dns_failure (cps ''wss://data.tradingview.com/socket.io/websocket'') (Some (cps ''sid'')) fresh_state)
     = fst (StreamHandler dns_failure (cps ''wss://data.tradingview.com/socket.io/websocket'') None fresh_state)
   \<and> \<not> isl (fst (StreamHandler dns_failure (cps ''wss://data.tradingview.com/socket.io/websocket'') (Some (cps ''sid'')) fresh_state))
   \<and> requests_get forbidden (cps ''https://www.tradingview.com/disclaimer/'') [(cps ''sessionid'', cps ''sid'')]
     = Inr (token_page\<lparr>status_code := 403, reason := cps ''Forbidden''\<rparr>)
   \<and> fst (StreamHandler forbidden (cps ''wss://data.tradingview.com/socket.io/websocket'') (Some (cps ''sid'')) fresh_state)
     = fst (StreamHandler forbidden (cps ''wss://data.tradingview.com/socket.io/websocket'') None fresh_state)"
proof -
  have h1: "fst (resolve_auth_token refused None (fresh_state\<lparr>self := new_object\<rparr>)) = Inr (cps ''unauthorized_user_token'')
      \<and> create_connection refused (cps ''wss://data.tradingview.com/socket.io/websocket'') the_request_header
     = Some (Exn ConnectionError (cps ''[Errno 111] Connection refused''))"
    by (simp add: resolve_without_credential refused_def all_well_def)
  have h2: "requests_get dns_failure (cps ''https://www.tradingview.com/disclaimer/'') [(cps ''sessionid'', cps ''sid'')]
     = Inl (Exn RequestException (cps ''Failed to resolve www.tradingview.com''))
     \<and> exn_class_of (Exn RequestException (cps ''Failed to resolve www.tradingview.com'')) = RequestException"
    by (simp add: dns_failure_def all_well_def)
  have h3: "requests_get forbidden (cps ''https://www.tradingview.com/disclaimer/'') [(cps ''sessionid'', cps ''sid'')]
     = Inr (token_page\<lparr>status_code := 403, reason := cps ''Forbidden''\<rparr>)
     \<and> 400 \<le> status_code (token_page\<lparr>status_code := 403, reason := cps ''Forbidden''\<rparr>)
     \<and> status_code (token_page\<lparr>status_code := 403, reason := cps ''Forbidden''\<rparr>) < 600"
    by (simp add: forbidden_def all_well_def)
  note t = construction_failures [where e = refused and session_id = None and s = fresh_state
      and auth_token = "cps ''unauthorized_user_token''"
      and websocket_url = "cps ''wss://data.tradingview.com/socket.io/websocket''"
      and ex = "Exn ConnectionError (cps ''[Errno 111] Connection refused'')"]
  from h1 t have r1: "fst (StreamHandler refused (cps ''wss://data.tradingview.com/socket.io/websocket'') None fresh_state)
     = Inl (Exn ConnectionError (cps ''[Errno 111] Connection refused''))" by blast
  note u = construction_failures [where e = dns_failure and s = fresh_state and sid = "cps ''sid''"
      and websocket_url = "cps ''wss://data.tradingview.com/socket.io/websocket''"
      and ex' = "Exn RequestException (cps ''Failed to resolve www.tradingview.com'')"]
  from h2 u have r2: "fst (StreamHandler dns_failure (cps ''wss://data.tradingview.com/socket.io/websocket'') (Some (cps ''sid'')) fresh_state)
     = fst (StreamHandler dns_failure (cps ''wss://data.tradingview.com/socket.io/websocket'') None fresh_state)" by blast
  have "\<exists>h s'. StreamHandler dns_failure (cps ''wss://data.tradingview.com/socket.io/websocket'') None fresh_state = (Inr h, s')"
    by (rule construction_accepted [OF resolve_without_credential]) (simp_all add: dns_failure_def all_well_def)
  then have r3: "\<not> isl (fst (StreamHandler dns_failure (cps ''wss://data.tradingview.com/socket.io/websocket'') (Some (cps ''sid'')) fresh_state))"
    using r2 by auto
  note v = construction_failures [where e = forbidden and s = fresh_state and sid = "cps ''sid''"
      and websocket_url = "cps ''wss://data.tradingview.com/socket.io/websocket''"
      and r = "token_page\<lparr>status_code := 403, reason := cps ''Forbidden''\<rparr>"]
  from h3 v have r4: "fst (StreamHandler forbidden (cps ''wss://data.tradingview.com/socket.io/websocket'') (Some (cps ''sid'')) fresh_state)
     = fst (StreamHandler forbidden (cps ''wss://data.tradingview.com/socket.io/websocket'') None fresh_state)" by blast
  show ?thesis using h1 h2 h3 r1 r2 r3 r4 by blast
qed

text \<open>
  Claim C9 as stated has no failure of token resolution fail the construction. A
  session id with a character outside Latin-1 makes \<open>requests.get\<close> raise
  \<open>UnicodeEncodeError\<close>, which is no \<open>RequestException\<close>: the constructor raises it
  before any connection is attempted, while the construction without a credential
  succeeds.
\<close>

theorem construction_fails_on_token_request:
  "requests_get bad_cookie (cps ''https://www.tradingview.com/disclaimer/'') [(cps ''sessionid'', [26085, 26412])]
     = Inl (Exn OtherException (cps ''latin-1 codec cannot encode characters''))
   \<and> fst (StreamHandler bad_cookie (cps ''wss://data.tradingview.com/socket.io/websocket'') (Some [26085, 26412]) fresh_state)
     = Inl (Exn OtherException (cps ''latin-1 codec cannot encode characters''))
   \<and> connect_calls (snd (StreamHandler bad_cookie (cps ''wss://data.tradingview.com/socket.io/websocket'') (Some [26085, 26412]) fresh_state)) = []
   \<and> \<not> isl (fst (StreamHandler bad_cookie (cps ''wss://data.tradingview.com/socket.io/websocket'') None fresh_state))"
proof -
  have g: "requests_get bad_cookie (cps ''https://www.tradingview.com/disclaimer/'') [(cps ''sessionid'', [26085, 26412])]
     = Inl (Exn OtherException (cps ''latin-1 codec cannot encode characters''))"
    by (simp add: bad_cookie_def all_well_def)
  have t: "get_auth_token_try bad_cookie [26085, 26412] = Inl (Exn OtherException (cps ''latin-1 codec cannot encode characters''))"
    using g by (simp add: get_auth_token_try_def)
  have s: "StreamHandler bad_cookie (cps ''wss://data.tradingview.com/socket.io/websocket'') (Some [26085, 26412]) fresh_state
     = (Inl (Exn OtherException (cps ''latin-1 codec cannot encode characters'')),
        fresh_state\<lparr>self := new_object, http_calls := http_calls fresh_state @
              [(cps ''https://www.tradingview.com/disclaimer/'', [(cps ''sessionid'', [26085, 26412])])]\<rparr>)"
    using t by (simp add: StreamHandler_def init_def resolve_auth_token_def get_auth_token_def Let_def)
  have "\<exists>h s'. StreamHandler bad_cookie (cps ''wss://data.tradingview.com/socket.io/websocket'') None fresh_state = (Inr h, s')"
    by (rule construction_accepted [OF resolve_without_credential]) (simp_all add: bad_cookie_def all_well_def)
  then have n: "\<not> isl (fst (StreamHandler bad_cookie (cps ''wss://data.tradingview.com/socket.io/websocket'') None fresh_state))"
    by auto
  have c: "connect_calls fresh_state = []" by (simp add: fresh_state_def)
  show ?thesis using g n c unfolding s by simp
qed

end
